theory Spec2Isabelle
  imports Complex_Main "HOL-Library.Word" "HOL-Library.Multiset"
begin

unbundle bit_operations_syntax

section \<open>WinScope: opportunity discovery and lifecycle pipeline\<close>

text \<open>
  A shallow embedding of \<^verbatim>\<open>winscope_intelligence_network.py\<close> and
  \<^verbatim>\<open>winscope_master_orchestrator.py\<close>. Python floats are modelled as
  \<^typ>\<open>real\<close> (the comparisons and the arithmetic of the functions below are
  read exactly), a \<^verbatim>\<open>datetime\<close> as a real number of seconds on a fixed
  time line, \<^verbatim>\<open>datetime.now()\<close> as an explicit argument \<open>now\<close>, and a
  Python string as a \<^typ>\<open>string\<close>, one \<^typ>\<open>char\<close> per character.
\<close>

subsection \<open>Python primitives\<close>

type_synonym datetime = real

datatype py_error = ZeroDivisionError | NotImplementedError | TimeoutError | ValueError | Exception_ string

text \<open>Float division \<^verbatim>\<open>a / b\<close>: raises on a zero divisor.\<close>

definition py_truediv :: "real \<Rightarrow> real \<Rightarrow> py_error + real" where
  "py_truediv a b = (if b = 0 then Inl ZeroDivisionError else Inr (a / b))"

subsection \<open>\<^verbatim>\<open>hashlib.md5\<close>\<close>

text \<open>
  \<^verbatim>\<open>hashlib.md5(s.encode()).hexdigest()\<close> is the MD5 message digest of RFC 1321,
  written out so that identities can be computed. Bytes are \<^typ>\<open>8 word\<close>, the
  state words \<^typ>\<open>32 word\<close> (addition wraps), and the encoding of a string takes
  one byte per character, which is the UTF-8 of \<^verbatim>\<open>encode()\<close> for ASCII strings.
\<close>

type_synonym w32 = "32 word"

definition md5_K :: "w32 list" where
  "md5_K =
     [0xd76aa478, 0xe8c7b756, 0x242070db, 0xc1bdceee,
      0xf57c0faf, 0x4787c62a, 0xa8304613, 0xfd469501,
      0x698098d8, 0x8b44f7af, 0xffff5bb1, 0x895cd7be,
      0x6b901122, 0xfd987193, 0xa679438e, 0x49b40821,
      0xf61e2562, 0xc040b340, 0x265e5a51, 0xe9b6c7aa,
      0xd62f105d, 0x02441453, 0xd8a1e681, 0xe7d3fbc8,
      0x21e1cde6, 0xc33707d6, 0xf4d50d87, 0x455a14ed,
      0xa9e3e905, 0xfcefa3f8, 0x676f02d9, 0x8d2a4c8a,
      0xfffa3942, 0x8771f681, 0x6d9d6122, 0xfde5380c,
      0xa4beea44, 0x4bdecfa9, 0xf6bb4b60, 0xbebfbc70,
      0x289b7ec6, 0xeaa127fa, 0xd4ef3085, 0x04881d05,
      0xd9d4d039, 0xe6db99e5, 0x1fa27cf8, 0xc4ac5665,
      0xf4292244, 0x432aff97, 0xab9423a7, 0xfc93a039,
      0x655b59c3, 0x8f0ccc92, 0xffeff47d, 0x85845dd1,
      0x6fa87e4f, 0xfe2ce6e0, 0xa3014314, 0x4e0811a1,
      0xf7537e82, 0xbd3af235, 0x2ad7d2bb, 0xeb86d391]"

definition md5_s :: "nat list" where
  "md5_s =
     [7, 12, 17, 22, 7, 12, 17, 22, 7, 12, 17, 22, 7, 12, 17, 22,
      5, 9, 14, 20, 5, 9, 14, 20, 5, 9, 14, 20, 5, 9, 14, 20,
      4, 11, 16, 23, 4, 11, 16, 23, 4, 11, 16, 23, 4, 11, 16, 23,
      6, 10, 15, 21, 6, 10, 15, 21, 6, 10, 15, 21, 6, 10, 15, 21]"

definition leftrotate :: "w32 \<Rightarrow> nat \<Rightarrow> w32" where
  "leftrotate x c = push_bit c x OR drop_bit (32 - c) x"

definition md5_step ::
  "w32 list \<Rightarrow> nat \<Rightarrow> w32 \<times> w32 \<times> w32 \<times> w32 \<Rightarrow> w32 \<times> w32 \<times> w32 \<times> w32" where
  "md5_step M i st =
     (case st of (A, B, C, D) \<Rightarrow>
        (case (if i < 16 then ((B AND C) OR (NOT B AND D), i)
               else if i < 32 then ((D AND B) OR (NOT D AND C), (5 * i + 1) mod 16)
               else if i < 48 then (B XOR C XOR D, (3 * i + 5) mod 16)
               else (C XOR (B OR NOT D), (7 * i) mod 16)) of
           (F, g) \<Rightarrow> (D, B + leftrotate (F + A + md5_K ! i + M ! g) (md5_s ! i), B, C)))"

definition md5_chunk :: "w32 \<times> w32 \<times> w32 \<times> w32 \<Rightarrow> w32 list \<Rightarrow> w32 \<times> w32 \<times> w32 \<times> w32" where
  "md5_chunk st M =
     (case st of (a0, b0, c0, d0) \<Rightarrow>
        (case fold (md5_step M) [0..<64] st of
           (A, B, C, D) \<Rightarrow> (a0 + A, b0 + B, c0 + C, d0 + D)))"

fun le_word :: "8 word list \<Rightarrow> w32" where
  "le_word [] = 0"
| "le_word (b # bs) = ucast b OR push_bit 8 (le_word bs)"

fun chunks_of :: "nat \<Rightarrow> nat \<Rightarrow> 'a list \<Rightarrow> 'a list list" where
  "chunks_of 0 n xs = []"
| "chunks_of (Suc k) n xs = take n xs # chunks_of k n (drop n xs)"

definition le_bytes32 :: "w32 \<Rightarrow> 8 word list" where
  "le_bytes32 w = map (\<lambda>i. ucast (drop_bit (8 * i) w)) [0..<4]"

definition le_bytes64 :: "64 word \<Rightarrow> 8 word list" where
  "le_bytes64 w = map (\<lambda>i. ucast (drop_bit (8 * i) w)) [0..<8]"

definition md5_pad :: "8 word list \<Rightarrow> 8 word list" where
  "md5_pad bs =
     bs @ [0x80] @ replicate ((119 - length bs mod 64) mod 64) 0 @
     le_bytes64 (8 * of_nat (length bs))"

definition md5_digest :: "8 word list \<Rightarrow> 8 word list" where
  "md5_digest bs =
     (let padded = md5_pad bs;
          blocks = chunks_of (length padded div 64) 64 padded;
          blockwords = map (\<lambda>blk. map le_word (chunks_of 16 4 blk)) blocks
      in case fold (\<lambda>M st. md5_chunk st M) blockwords
                (0x67452301, 0xefcdab89, 0x98badcfe, 0x10325476) of
           (a, b, c, d) \<Rightarrow> concat (map le_bytes32 [a, b, c, d]))"

definition hex_digit :: "8 word \<Rightarrow> char" where
  "hex_digit n = ''0123456789abcdef'' ! unat n"

definition hexdigest :: "8 word list \<Rightarrow> string" where
  "hexdigest bs = concat (map (\<lambda>b. [hex_digit (drop_bit 4 b), hex_digit (b AND 0x0f)]) bs)"

definition md5_hex :: "string \<Rightarrow> string" where
  "md5_hex s = hexdigest (md5_digest (map of_char s))"

subsection \<open>\<^verbatim>\<open>PortalConfig\<close>\<close>

datatype portal_type = FEDERAL_API | STATE_WEB | LOCAL_WEB | DIBBS | COOPERATIVE | GRANT

datatype scraping_strategy = REST_API | GRAPHQL | SELENIUM | PLAYWRIGHT | BEAUTIFUL_SOUP | SCRAPY

record portal_config =
  name :: string
  url :: string
  portal_type :: portal_type
  strategy :: scraping_strategy
  scrape_frequency_hours :: int
  portal_naics_codes :: "string list"
  portal_keywords :: "string list"
  requires_auth :: bool
  auth_credentials :: "(string \<times> string) list option"
  selectors :: "(string \<times> string) list"
  api_endpoint :: "string option"
  api_key :: "string option"
  last_scrape :: "datetime option"
  success_rate :: real
  avg_opportunities_per_scrape :: real

text \<open>
  \<^verbatim>\<open>
  def should_scrape(self) -> bool:
      if self.last_scrape is None:
          return True
      hours_since_scrape = (datetime.now() - self.last_scrape).total_seconds() / 3600
      if self.avg_opportunities_per_scrape > 5:
          frequency = self.scrape_frequency_hours * 0.5  # Double frequency
      elif self.avg_opportunities_per_scrape < 1:
          frequency = self.scrape_frequency_hours * 2  # Half frequency
      else:
          frequency = self.scrape_frequency_hours
      return hours_since_scrape >= frequency
  \<close>
  \<open>frequency\<close> is the local variable of that name: the effective interval in hours.
\<close>

definition frequency :: "portal_config \<Rightarrow> real" where
  "frequency config =
     (if avg_opportunities_per_scrape config > 5 then real_of_int (scrape_frequency_hours config) * 0.5
      else if avg_opportunities_per_scrape config < 1 then real_of_int (scrape_frequency_hours config) * 2
      else real_of_int (scrape_frequency_hours config))"

definition should_scrape :: "datetime \<Rightarrow> portal_config \<Rightarrow> bool" where
  "should_scrape now config =
     (case last_scrape config of
        None \<Rightarrow> True
      | Some t \<Rightarrow>
          (let hours_since_scrape = (now - t) / 3600
           in hours_since_scrape \<ge> frequency config))"

text \<open>The registry's entry for California eProcure.\<close>

definition california_eprocure :: portal_config where
  "california_eprocure =
     \<lparr> name = ''California eProcure'',
       url = ''https://caleprocure.ca.gov/pages/Events-BS3/event-search.aspx'',
       portal_type = STATE_WEB,
       strategy = PLAYWRIGHT,
       scrape_frequency_hours = 12,
       portal_naics_codes = [''333249'', ''541330'', ''541512''],
       portal_keywords = [''automation'', ''robotics'', ''material handling''],
       requires_auth = False,
       auth_credentials = None,
       selectors =
         [(''search_button'', ''button#searchButton''),
          (''opportunity_rows'', ''table#resultsTable tbody tr''),
          (''title'', ''td:nth-child(2)''),
          (''agency'', ''td:nth-child(3)''),
          (''due_date'', ''td:nth-child(5)''),
          (''detail_link'', ''td:nth-child(2) a'')],
       api_endpoint = None,
       api_key = None,
       last_scrape = None,
       success_rate = 1.0,
       avg_opportunities_per_scrape = 0.0 \<rparr>"

text \<open>The registry's entry for Michigan SIGMA, one of the portals without a scraper of its own.\<close>

definition michigan_sigma :: portal_config where
  "michigan_sigma =
     \<lparr> name = ''Michigan SIGMA'',
       url = ''https://sigma.michigan.gov'',
       portal_type = STATE_WEB,
       strategy = PLAYWRIGHT,
       scrape_frequency_hours = 12,
       portal_naics_codes = [''333249'', ''541330''],
       portal_keywords = [''manufacturing'', ''automation'', ''robotics''],
       requires_auth = False,
       auth_credentials = None,
       selectors =
         [(''opportunity_list'', ''div.bid-opportunity''),
          (''title'', ''h4.bid-title''),
          (''due_date'', ''span.due-date'')],
       api_endpoint = None,
       api_key = None,
       last_scrape = None,
       success_rate = 1.0,
       avg_opportunities_per_scrape = 0.0 \<rparr>"

subsection \<open>\<^verbatim>\<open>Opportunity\<close>\<close>

record opportunity =
  opp_id :: string
  source_portal :: string
  title :: string
  agency :: string
  naics_codes :: "string list"
  description :: string
  solicitation_number :: string
  posted_date :: datetime
  due_date :: "datetime option"
  estimated_value :: "real option"
  set_aside :: "string option"
  location :: "string option"
  attachments :: "string list"
  raw_data :: "(string \<times> string) list"
  match_score :: real
  win_probability :: real
  extracted_at :: datetime

text \<open>
  \<^verbatim>\<open>
  def generate_id(self) -> str:
      """Generate unique ID from solicitation number and portal"""
      unique_string = f"{self.source_portal}_{self.solicitation_number}"
      return hashlib.md5(unique_string.encode()).hexdigest()[:16]

  def __post_init__(self):
      if not self.id:
          self.id = self.generate_id()
  \<close>
  The field \<^verbatim>\<open>id\<close> is \<open>opp_id\<close> here.
\<close>

definition generate_id :: "opportunity \<Rightarrow> string" where
  "generate_id opp = take 16 (md5_hex (source_portal opp @ ''_'' @ solicitation_number opp))"

definition post_init :: "opportunity \<Rightarrow> opportunity" where
  "post_init opp = (if opp_id opp = [] then opp\<lparr>opp_id := generate_id opp\<rparr> else opp)"

subsection \<open>\<^verbatim>\<open>WinScopeIntelligenceNetwork._deduplicate\<close>\<close>

text \<open>
  \<^verbatim>\<open>
  seen_ids = set()
  unique_opportunities = []
  for opp in opportunities:
      if opp.id not in seen_ids:
          seen_ids.add(opp.id)
          unique_opportunities.append(opp)
  return unique_opportunities
  \<close>
  The loop carries \<open>seen_ids\<close> and \<open>unique_opportunities\<close>.
\<close>

fun deduplicate_loop :: "string set \<Rightarrow> opportunity list \<Rightarrow> opportunity list \<Rightarrow> opportunity list" where
  "deduplicate_loop seen_ids unique_opportunities [] = unique_opportunities"
| "deduplicate_loop seen_ids unique_opportunities (opp # opportunities) =
     (if opp_id opp \<notin> seen_ids
      then deduplicate_loop (insert (opp_id opp) seen_ids) (unique_opportunities @ [opp]) opportunities
      else deduplicate_loop seen_ids unique_opportunities opportunities)"

definition deduplicate :: "opportunity list \<Rightarrow> opportunity list" where
  "deduplicate opportunities = deduplicate_loop {} [] opportunities"

text \<open>
  Two candidates for solicitation AB-100 as the scrapers build them (\<^verbatim>\<open>id=""\<close>,
  filled in by \<^verbatim>\<open>__post_init__\<close>): one from SAM.gov that knows the due date, one
  from California eProcure, and a second SAM.gov record that knows the value instead.
\<close>

definition ab100_sam :: opportunity where
  "ab100_sam = post_init
     \<lparr> opp_id = '''', source_portal = ''SAM.gov'', title = ''Robotic cell'', agency = ''DoD'',
       naics_codes = [''333249''], description = '''', solicitation_number = ''AB-100'',
       posted_date = 100, due_date = Some 900, estimated_value = None, set_aside = None,
       location = None, attachments = [], raw_data = [], match_score = 0,
       win_probability = 0, extracted_at = 200 \<rparr>"

definition ab100_ca :: opportunity where
  "ab100_ca = post_init
     \<lparr> opp_id = '''', source_portal = ''California eProcure'', title = ''Robotic cell'',
       agency = ''DoD'', naics_codes = [''333249''], description = '''',
       solicitation_number = ''AB-100'', posted_date = 100, due_date = None,
       estimated_value = Some 120000, set_aside = None, location = Some ''California'',
       attachments = [], raw_data = [], match_score = 0, win_probability = 0,
       extracted_at = 200 \<rparr>"

definition ab100_sam_value :: opportunity where
  "ab100_sam_value = post_init
     \<lparr> opp_id = '''', source_portal = ''SAM.gov'', title = ''Robotic cell'', agency = ''DoD'',
       naics_codes = [''333249''], description = '''', solicitation_number = ''AB-100'',
       posted_date = 100, due_date = None, estimated_value = Some 120000, set_aside = None,
       location = None, attachments = [], raw_data = [], match_score = 0,
       win_probability = 0, extracted_at = 200 \<rparr>"

subsection \<open>The scorer's company profile\<close>

record company_profile =
  profile_naics_codes :: "string list"
  certifications :: "string list"
  capabilities :: "string list"
  sweet_spot_value :: "real \<times> real"
  preferred_states :: "string list"
  historical_win_rate :: real

text \<open>The profile that \<^verbatim>\<open>OpportunityScorer.__init__\<close> builds.\<close>

definition company_profile :: company_profile where
  "company_profile =
     \<lparr> profile_naics_codes = [''333249'', ''541330'', ''541512'', ''541715'', ''237130'', ''333922''],
       certifications = [''FANUC ASI'', ''UR CSP'', ''MBE'', ''WBENC'', ''SBE''],
       capabilities =
         [''FANUC robot integration'', ''Universal Robots integration'', ''AI vision systems'',
          ''Material handling automation'', ''Conveyor systems'', ''PLC programming'',
          ''Industrial automation''],
       sweet_spot_value = (50000, 500000),
       preferred_states = [''CA'', ''MI''],
       historical_win_rate = 0.87 \<rparr>"

subsection \<open>\<^verbatim>\<open>OpportunityScorer._score_contract_value\<close>\<close>

text \<open>
  \<^verbatim>\<open>
  if value is None: return 0.5
  min_sweet, max_sweet = self.company_profile["sweet_spot_value"]
  if min_sweet <= value <= max_sweet: return 1.0
  elif value < min_sweet: return max(0.3, value / min_sweet)
  else:
      ratio = max_sweet / value
      return max(0.2, ratio)
  \<close>
  The two divisions raise on a zero divisor, so the result is a sum.
\<close>

definition score_contract_value :: "company_profile \<Rightarrow> real option \<Rightarrow> py_error + real" where
  "score_contract_value prof value =
     (case value of
        None \<Rightarrow> Inr 0.5
      | Some v \<Rightarrow>
          (case sweet_spot_value prof of (min_sweet, max_sweet) \<Rightarrow>
             if min_sweet \<le> v \<and> v \<le> max_sweet then Inr 1.0
             else if v < min_sweet then
               (case py_truediv v min_sweet of
                  Inl e \<Rightarrow> Inl e
                | Inr q \<Rightarrow> Inr (max 0.3 q))
             else
               (case py_truediv max_sweet v of
                  Inl e \<Rightarrow> Inl e
                | Inr ratio \<Rightarrow> Inr (max 0.2 ratio))))"

subsection \<open>\<^verbatim>\<open>OpportunityScorer._score_keywords\<close>\<close>










subsection \<open>\<^verbatim>\<open>CaliforniaEProcureScraper.scrape\<close>\<close>

text \<open>
  \<^verbatim>\<open>
  opportunities = []
  async with async_playwright() as p:
      browser = await p.chromium.launch(headless=True)
      page = await browser.new_page()
      try:
          await page.goto(self.config.url, wait_until="networkidle")
          ...
          opportunities = await self._extract_opportunities(page)
      except Exception as e:
          logger.error(f"Error scraping California eProcure: {e}")
      finally:
          await browser.close()
  self.config.last_scrape = datetime.now()
  self.config.avg_opportunities_per_scrape = len(opportunities)
  return opportunities
  \<close>
  What the browser does is the argument \<open>outcome\<close>: an exception outside the
  \<^verbatim>\<open>try\<close> (the launch of the browser or the new page; it propagates), an exception
  inside it (caught: a time-out of \<^verbatim>\<open>page.goto\<close>, say), or the extracted
  opportunities. The call mutates the portal's configuration in place, so the function
  returns what the call raised or returned, together with the configuration after it.
\<close>

datatype page_outcome =
  Raises_outside_try py_error | Raises_in_try py_error | Extracted "opportunity list"

definition california_scrape ::
  "datetime \<Rightarrow> page_outcome \<Rightarrow> portal_config \<Rightarrow> (py_error + opportunity list) \<times> portal_config" where
  "california_scrape now outcome config =
     (case outcome of
        Raises_outside_try e \<Rightarrow> (Inl e, config)
      | _ \<Rightarrow>
          (let opportunities = (case outcome of Extracted found \<Rightarrow> found | _ \<Rightarrow> [])
           in (Inr opportunities,
               config\<lparr> last_scrape := Some now,
                       avg_opportunities_per_scrape := real (length opportunities) \<rparr>)))"

text \<open>
  \<^verbatim>\<open>PortalScraper.scrape\<close>, which \<^verbatim>\<open>get_scraper\<close> gives to every portal but
  California eProcure and SAM.gov:
  \<^verbatim>\<open>
  async def scrape(self) -> List[Opportunity]:
      """Override this method in specific scrapers"""
      raise NotImplementedError
  \<close>
\<close>

definition portal_scraper_scrape :: "portal_config \<Rightarrow> (py_error + opportunity list) \<times> portal_config" where
  "portal_scraper_scrape config = (Inl NotImplementedError, config)"

text \<open>
  California eProcure after a scrape at time 0 that found six opportunities, and after two
  further scrapes, an hour and two hours later, in which the launch of the browser timed
  out; Michigan SIGMA after two scrapes.
\<close>

definition california_after_six :: portal_config where
  "california_after_six =
     snd (california_scrape 0 (Extracted (replicate 6 ab100_ca)) california_eprocure)"

definition california_after_launch_timeouts :: portal_config where
  "california_after_launch_timeouts =
     snd (california_scrape 7200 (Raises_outside_try TimeoutError)
       (snd (california_scrape 3600 (Raises_outside_try TimeoutError) california_after_six)))"

definition michigan_after_two_scrapes :: portal_config where
  "michigan_after_two_scrapes = snd (portal_scraper_scrape (snd (portal_scraper_scrape michigan_sigma)))"

subsection \<open>\<^verbatim>\<open>WinScopeIntelligenceNetwork.scrape_all_portals\<close>\<close>





subsection \<open>\<^verbatim>\<open>score_opportunities\<close> and \<^verbatim>\<open>get_top_opportunities\<close>\<close>

text \<open>
  \<^verbatim>\<open>
  async def score_one(opp):
      opp.match_score = await self.scorer.score_opportunity(opp)
      return opp
  scored = await asyncio.gather(*[score_one(opp) for opp in opportunities])
  scored.sort(key=lambda x: x.match_score, reverse=True)
  return scored
  \<close>
  \<open>score_opportunity\<close> is the scorer's result for an opportunity. Python's sort is
  stable, also with \<^verbatim>\<open>reverse=True\<close>: it is the stable sort on the negated key.
\<close>

definition score_opportunities :: "(opportunity \<Rightarrow> real) \<Rightarrow> opportunity list \<Rightarrow> opportunity list" where
  "score_opportunities score_opportunity opportunities =
     (let scored = map (\<lambda>opp. opp\<lparr>match_score := score_opportunity opp\<rparr>) opportunities
      in sort_key (\<lambda>x. - match_score x) scored)"

text \<open>The slice \<^verbatim>\<open>xs[:limit]\<close>; a negative \<open>limit\<close> counts from the end.\<close>

definition py_slice_to :: "int \<Rightarrow> 'a list \<Rightarrow> 'a list" where
  "py_slice_to limit xs =
     (if 0 \<le> limit then take (nat limit) xs else take (length xs - nat (- limit)) xs)"

text \<open>
  \<^verbatim>\<open>
  def get_top_opportunities(self, limit: int = 10, min_score: float = 50.0):
      filtered = [opp for opp in self.opportunities if opp.match_score >= min_score]
      return sorted(filtered, key=lambda x: x.match_score, reverse=True)[:limit]
  \<close>
\<close>

definition get_top_opportunities :: "opportunity list \<Rightarrow> int \<Rightarrow> real \<Rightarrow> opportunity list" where
  "get_top_opportunities opportunities limit min_score =
     (let filtered = filter (\<lambda>opp. match_score opp \<ge> min_score) opportunities
      in py_slice_to limit (sort_key (\<lambda>x. - match_score x) filtered))"

subsection \<open>The orchestrator's pipeline\<close>

datatype opportunity_stage =
  DISCOVERED | SCORED | QUALIFIED | DOCUMENTS_DOWNLOADED | DATA_EXTRACTED | RFQ_GENERATED |
  RFQ_SENT | QUOTES_RECEIVED | PROPOSAL_GENERATED | PROPOSAL_SUBMITTED | WON | LOST | NO_BID

text \<open>The position of a stage in the enumeration.\<close>

fun stage_index :: "opportunity_stage \<Rightarrow> nat" where
  "stage_index DISCOVERED = 0"
| "stage_index SCORED = 1"
| "stage_index QUALIFIED = 2"
| "stage_index DOCUMENTS_DOWNLOADED = 3"
| "stage_index DATA_EXTRACTED = 4"
| "stage_index RFQ_GENERATED = 5"
| "stage_index RFQ_SENT = 6"
| "stage_index QUOTES_RECEIVED = 7"
| "stage_index PROPOSAL_GENERATED = 8"
| "stage_index PROPOSAL_SUBMITTED = 9"
| "stage_index WON = 10"
| "stage_index LOST = 11"
| "stage_index NO_BID = 12"

fun stage_value :: "opportunity_stage \<Rightarrow> string" where
  "stage_value DISCOVERED = ''discovered''"
| "stage_value SCORED = ''scored''"
| "stage_value QUALIFIED = ''qualified''"
| "stage_value DOCUMENTS_DOWNLOADED = ''documents_downloaded''"
| "stage_value DATA_EXTRACTED = ''data_extracted''"
| "stage_value RFQ_GENERATED = ''rfq_generated''"
| "stage_value RFQ_SENT = ''rfq_sent''"
| "stage_value QUOTES_RECEIVED = ''quotes_received''"
| "stage_value PROPOSAL_GENERATED = ''proposal_generated''"
| "stage_value PROPOSAL_SUBMITTED = ''proposal_submitted''"
| "stage_value WON = ''won''"
| "stage_value LOST = ''lost''"
| "stage_value NO_BID = ''no_bid''"

text \<open>
  \<^verbatim>\<open>OpportunityRecord\<close>; the fields it shares with \<^verbatim>\<open>Opportunity\<close> carry the
  prefix \<open>r_\<close>. A path is a string.
\<close>

record opportunity_record =
  r_id :: string
  r_solicitation_number :: string
  r_source_portal :: string
  r_title :: string
  r_agency :: string
  r_naics_codes :: "string list"
  r_description :: string
  r_posted_date :: datetime
  r_due_date :: "datetime option"
  r_estimated_value :: "real option"
  r_set_aside :: "string option"
  r_location :: "string option"
  stage :: opportunity_stage
  r_match_score :: real
  r_win_probability :: real
  discovered_at :: datetime
  qualified_at :: "datetime option"
  submitted_at :: "datetime option"
  award_date :: "datetime option"
  solicitation_package_id :: "string option"
  rfq_document_path :: "string option"
  proposal_document_path :: "string option"
  bid_decision :: string
  bid_decision_reason :: string
  actual_bid_amount :: "real option"
  winning_bid_amount :: "real option"
  time_to_process_hours :: "real option"
  automation_success :: bool
  manual_interventions :: "string list"
  r_raw_data :: "(string \<times> string) list"
  r_notes :: string

text \<open>
  A row of the table \<^verbatim>\<open>opportunities\<close>, whose primary key is the id: the table is
  a map from ids to rows. The column \<^verbatim>\<open>data\<close> holds the JSON of the whole record,
  kept here as the record.
\<close>

record opportunity_row =
  row_solicitation_number :: string
  row_source_portal :: string
  row_title :: string
  row_agency :: string
  row_stage :: string
  row_match_score :: real
  row_win_probability :: real
  row_data :: opportunity_record
  row_created_at :: datetime
  row_updated_at :: datetime

record orchestrator_config =
  min_match_score :: real
  auto_process_threshold :: real
  max_concurrent_processing :: nat
  scrape_interval_minutes :: nat

record orchestrator =
  pipeline :: "string \<rightharpoonup> opportunity_record"
  opportunities_table :: "string \<rightharpoonup> opportunity_row"
  config :: orchestrator_config

text \<open>The configuration that \<^verbatim>\<open>WinScopeMasterOrchestrator.__init__\<close> sets.\<close>

definition default_config :: orchestrator_config where
  "default_config =
     \<lparr> min_match_score = 50.0, auto_process_threshold = 80.0,
       max_concurrent_processing = 5, scrape_interval_minutes = 60 \<rparr>"

text \<open>
  \<^verbatim>\<open>
  def _qualify_opportunities(self, opportunities):
      return [opp for opp in opportunities if opp.match_score >= self.config['min_match_score']]
  \<close>
\<close>

definition qualify_opportunities :: "orchestrator \<Rightarrow> opportunity list \<Rightarrow> opportunity list" where
  "qualify_opportunities self opportunities =
     filter (\<lambda>opp. match_score opp \<ge> min_match_score (config self)) opportunities"

text \<open>
  \<^verbatim>\<open>_save_opportunity_record\<close>:
  \<^verbatim>\<open>INSERT OR REPLACE INTO opportunities (id, ..., created_at, updated_at) VALUES (record.id, ...,
  record.discovered_at.isoformat(), datetime.now().isoformat())\<close>.
\<close>

definition save_opportunity_record :: "datetime \<Rightarrow> opportunity_record \<Rightarrow> orchestrator \<Rightarrow> orchestrator" where
  "save_opportunity_record now record self =
     self\<lparr> opportunities_table := (opportunities_table self)(r_id record \<mapsto>
       \<lparr> row_solicitation_number = r_solicitation_number record,
         row_source_portal = r_source_portal record,
         row_title = r_title record,
         row_agency = r_agency record,
         row_stage = stage_value (stage record),
         row_match_score = r_match_score record,
         row_win_probability = r_win_probability record,
         row_data = record,
         row_created_at = discovered_at record,
         row_updated_at = now \<rparr>) \<rparr>"

text \<open>
  \<^verbatim>\<open>
  record = OpportunityRecord(id=opportunity.id, ..., stage=OpportunityStage.QUALIFIED,
      match_score=opportunity.match_score, win_probability=opportunity.win_probability,
      qualified_at=datetime.now())
  try:
      package = None
      record.stage = OpportunityStage.DATA_EXTRACTED
      record.stage = OpportunityStage.RFQ_GENERATED
  except Exception as e:
      record.manual_interventions.append(f"Processing failed: {str(e)}")
  self._save_opportunity_record(record)
  self.pipeline[record.id] = record
  \<close>
  Nothing in the body of the \<^verbatim>\<open>try\<close> raises, so its handler has no branch here. The
  fields not given to the constructor take the defaults of the dataclass; the readings
  of the clock within one call are one instant \<open>now\<close>.
\<close>

definition process_opportunity :: "datetime \<Rightarrow> opportunity \<Rightarrow> orchestrator \<Rightarrow> orchestrator" where
  "process_opportunity now opportunity self =
     (let record =
            \<lparr> r_id = opp_id opportunity,
              r_solicitation_number = solicitation_number opportunity,
              r_source_portal = source_portal opportunity,
              r_title = title opportunity,
              r_agency = agency opportunity,
              r_naics_codes = naics_codes opportunity,
              r_description = description opportunity,
              r_posted_date = posted_date opportunity,
              r_due_date = due_date opportunity,
              r_estimated_value = estimated_value opportunity,
              r_set_aside = set_aside opportunity,
              r_location = location opportunity,
              stage = QUALIFIED,
              r_match_score = match_score opportunity,
              r_win_probability = win_probability opportunity,
              discovered_at = now,
              qualified_at = Some now,
              submitted_at = None,
              award_date = None,
              solicitation_package_id = None,
              rfq_document_path = None,
              proposal_document_path = None,
              bid_decision = ''pending'',
              bid_decision_reason = '''',
              actual_bid_amount = None,
              winning_bid_amount = None,
              time_to_process_hours = None,
              automation_success = True,
              manual_interventions = [],
              r_raw_data = [],
              r_notes = '''' \<rparr>;
          record = record\<lparr>stage := DATA_EXTRACTED\<rparr>;
          record = record\<lparr>stage := RFQ_GENERATED\<rparr>;
          self = save_opportunity_record now record self
      in self\<lparr> pipeline := (pipeline self)(r_id record \<mapsto> record) \<rparr>)"

text \<open>
  The orchestrator as \<^verbatim>\<open>__init__\<close> leaves it, and a pipeline in which AB-100 from
  SAM.gov was processed at time 1000 and has since been advanced to \<open>WON\<close>.
\<close>

definition orch0 :: orchestrator where
  "orch0 = \<lparr> pipeline = Map.empty, opportunities_table = Map.empty, config = default_config \<rparr>"

definition orch_won :: orchestrator where
  "orch_won =
     (let self = process_opportunity 1000 ab100_sam orch0
      in self\<lparr> pipeline :=
                 map_option (\<lambda>r. r\<lparr>stage := WON, submitted_at := Some 5000, award_date := Some 9000\<rparr>)
                   \<circ> pipeline self,
               opportunities_table :=
                 map_option (\<lambda>row. row\<lparr>row_stage := stage_value WON\<rparr>) \<circ> opportunities_table self \<rparr>)"

subsection \<open>\<^verbatim>\<open>LearningEngine.record_pricing_accuracy\<close>\<close>

text \<open>
  The table \<^verbatim>\<open>pricing_accuracy\<close> is the list of its rows in insertion order; the
  auto-incremented key of a row is its position.
\<close>

record pricing_row =
  line_item_description :: string
  estimated_price :: real
  actual_price :: real
  error_percentage :: real
  source :: string
  created_at :: datetime

text \<open>
  \<^verbatim>\<open>
  error_pct = abs(estimated - actual) / actual * 100 if actual > 0 else 0
  ... INSERT INTO pricing_accuracy ... VALUES (description, estimated, actual, error_pct, source, now)
  \<close>
\<close>

definition record_pricing_accuracy ::
  "string \<Rightarrow> real \<Rightarrow> real \<Rightarrow> string \<Rightarrow> datetime \<Rightarrow> pricing_row list \<Rightarrow> py_error + pricing_row list" where
  "record_pricing_accuracy descr estimated actual src now table =
     (case (if actual > 0
            then (case py_truediv \<bar>estimated - actual\<bar> actual of
                    Inl e \<Rightarrow> Inl e
                  | Inr q \<Rightarrow> Inr (q * 100))
            else Inr 0) of
        Inl e \<Rightarrow> Inl e
      | Inr error_pct \<Rightarrow>
          Inr (table @
            [\<lparr> line_item_description = descr,
               estimated_price = estimated,
               actual_price = actual,
               error_percentage = error_pct,
               source = src,
               created_at = now \<rparr>]))"

section \<open>Theorems\<close>

subsection \<open>Identity and deduplication\<close>

text \<open>The model of MD5 on a test vector of RFC 1321, and the two identities of AB-100.\<close>

lemma md5_hex_abc: "md5_hex ''abc'' = ''900150983cd24fb0d6963f7d28e17f72''"
  by code_simp

lemma opp_id_ab100_sam: "opp_id ab100_sam = ''4e212f307ed7cccc''"
  by code_simp

lemma opp_id_ab100_ca: "opp_id ab100_ca = ''9df2d72d08888d9e''"
  by code_simp

text \<open>
  C1, as the code has it. The identity is derived from the source portal and the
  solicitation number together: two candidates with the same portal and the same
  solicitation number have the same identity, also after \<^verbatim>\<open>__post_init__\<close> has
  filled in an empty id.
\<close>

theorem generate_id_per_portal:
  assumes "source_portal a = source_portal b"
    and "solicitation_number a = solicitation_number b"
  shows "generate_id a = generate_id b \<and>
         generate_id a = take 16 (md5_hex (source_portal a @ ''_'' @ solicitation_number a)) \<and>
         opp_id (post_init (a\<lparr>opp_id := ''''\<rparr>)) = opp_id (post_init (b\<lparr>opp_id := ''''\<rparr>))"
  using assms by (simp add: generate_id_def post_init_def)

theorem generate_id_per_portal_witness:
  "source_portal ab100_sam = source_portal ab100_sam_value \<and>
   solicitation_number ab100_sam = solicitation_number ab100_sam_value \<and>
   estimated_value ab100_sam \<noteq> estimated_value ab100_sam_value \<and>
   generate_id ab100_sam = generate_id ab100_sam_value"
proof -
  have portal: "source_portal ab100_sam = source_portal ab100_sam_value"
    by (simp add: ab100_sam_def ab100_sam_value_def post_init_def)
  have number: "solicitation_number ab100_sam = solicitation_number ab100_sam_value"
    by (simp add: ab100_sam_def ab100_sam_value_def post_init_def)
  have "estimated_value ab100_sam \<noteq> estimated_value ab100_sam_value"
    by (simp add: ab100_sam_def ab100_sam_value_def post_init_def)
  with generate_id_per_portal [OF portal number] portal number show ?thesis
    by simp
qed

text \<open>
  C1 as stated fails: solicitation AB-100 from SAM.gov and from California eProcure gets
  two identities, and deduplication keeps both candidates.
\<close>

theorem generate_id_portal_counterexample:
  "solicitation_number ab100_sam = ''AB-100'' \<and>
   solicitation_number ab100_ca = ''AB-100'' \<and>
   opp_id ab100_sam = ''4e212f307ed7cccc'' \<and>
   opp_id ab100_ca = ''9df2d72d08888d9e'' \<and>
   deduplicate [ab100_sam, ab100_ca] = [ab100_sam, ab100_ca]"
proof -
  have "solicitation_number ab100_sam = ''AB-100''" and "solicitation_number ab100_ca = ''AB-100''"
    by (simp_all add: ab100_sam_def ab100_ca_def post_init_def)
  then show ?thesis
    by (simp add: opp_id_ab100_sam opp_id_ab100_ca deduplicate_def)
qed

text \<open>The loop of \<^verbatim>\<open>_deduplicate\<close>, without its accumulator.\<close>

lemma deduplicate_loop_acc:
  "deduplicate_loop S acc xs = acc @ deduplicate_loop S [] xs"
proof (induction xs arbitrary: S acc)
  case Nil
  show ?case by simp
next
  case (Cons x xs)
  show ?case
    using Cons.IH [of "insert (opp_id x) S" "acc @ [x]"] Cons.IH [of "insert (opp_id x) S" "[x]"]
      Cons.IH [of S acc]
    by simp
qed

lemma deduplicate_loop_Cons:
  "deduplicate_loop S [] (x # xs) =
     (if opp_id x \<in> S then deduplicate_loop S [] xs
      else x # deduplicate_loop (insert (opp_id x) S) [] xs)"
  using deduplicate_loop_acc [of "insert (opp_id x) S" "[x]" xs] by simp

lemma deduplicate_loop_ids:
  "set (map opp_id (deduplicate_loop S [] xs)) = set (map opp_id xs) - S"
  by (induction xs arbitrary: S) (auto simp: deduplicate_loop_Cons simp del: deduplicate_loop.simps(2))

lemma deduplicate_loop_distinct: "distinct (map opp_id (deduplicate_loop S [] xs))"
proof (induction xs arbitrary: S)
  case Nil
  show ?case by simp
next
  case (Cons x xs)
  have "opp_id x \<notin> set (map opp_id (deduplicate_loop (insert (opp_id x) S) [] xs))"
    unfolding deduplicate_loop_ids by simp
  with Cons.IH show ?case
    by (simp add: deduplicate_loop_Cons del: deduplicate_loop.simps(2))
qed

lemma deduplicate_loop_idem:
  "deduplicate_loop S [] (deduplicate_loop S [] xs) = deduplicate_loop S [] xs"
  by (induction xs arbitrary: S) (simp_all add: deduplicate_loop_Cons del: deduplicate_loop.simps(2))

lemma deduplicate_loop_first:
  "y \<in> set (deduplicate_loop S [] xs) \<Longrightarrow> find (\<lambda>p. opp_id p = opp_id y) xs = Some y"
proof (induction xs arbitrary: S)
  case Nil
  then show ?case by simp
next
  case (Cons x xs)
  show ?case
  proof (cases "opp_id x \<in> S")
    case True
    with Cons.prems have mem: "y \<in> set (deduplicate_loop S [] xs)"
      by (simp add: deduplicate_loop_Cons del: deduplicate_loop.simps(2))
    then have "opp_id y \<in> set (map opp_id (deduplicate_loop S [] xs))"
      by simp
    then have "opp_id y \<notin> S"
      unfolding deduplicate_loop_ids by simp
    with True have "opp_id x \<noteq> opp_id y" by auto
    with Cons.IH [OF mem] show ?thesis by simp
  next
    case False
    with Cons.prems have "y = x \<or> y \<in> set (deduplicate_loop (insert (opp_id x) S) [] xs)"
      by (simp add: deduplicate_loop_Cons del: deduplicate_loop.simps(2))
    then show ?thesis
    proof
      assume "y = x"
      then show ?thesis by simp
    next
      assume mem: "y \<in> set (deduplicate_loop (insert (opp_id x) S) [] xs)"
      then have "opp_id y \<in> set (map opp_id (deduplicate_loop (insert (opp_id x) S) [] xs))"
        by simp
      then have "opp_id x \<noteq> opp_id y"
        unfolding deduplicate_loop_ids by auto
      with Cons.IH [OF mem] show ?thesis by simp
    qed
  qed
qed

lemma deduplicate_ids: "set (map opp_id (deduplicate xs)) = set (map opp_id xs)"
  unfolding deduplicate_def deduplicate_loop_ids by simp

text \<open>
  C2, as the code has it. Deduplication is idempotent, and on every permutation of the
  list it yields the same set of identities (those of the list, each once). For each
  identity it keeps the first candidate of the list with that identity, as it is: no
  field is merged.
\<close>

theorem deduplicate_first_wins:
  "deduplicate (deduplicate xs) = deduplicate xs \<and>
   (mset ys = mset xs \<longrightarrow>
      set (map opp_id (deduplicate ys)) = set (map opp_id (deduplicate xs))) \<and>
   set (map opp_id (deduplicate xs)) = set (map opp_id xs) \<and>
   distinct (map opp_id (deduplicate xs)) \<and>
   (\<forall>y \<in> set (deduplicate xs). find (\<lambda>p. opp_id p = opp_id y) xs = Some y)"
proof -
  have "set (map opp_id ys) = set (map opp_id xs)" if "mset ys = mset xs"
    using that by (metis mset_eq_setD set_map)
  then show ?thesis
    unfolding deduplicate_ids
    by (simp add: deduplicate_def deduplicate_loop_idem deduplicate_loop_distinct
        deduplicate_loop_first)
qed

theorem deduplicate_first_wins_witness:
  "deduplicate [ab100_sam, ab100_sam_value] = [ab100_sam] \<and>
   deduplicate (deduplicate [ab100_sam, ab100_sam_value]) = [ab100_sam] \<and>
   set (map opp_id (deduplicate [ab100_sam_value, ab100_sam])) = {opp_id ab100_sam} \<and>
   find (\<lambda>p. opp_id p = opp_id ab100_sam) [ab100_sam, ab100_sam_value] = Some ab100_sam"
proof -
  have same: "opp_id ab100_sam_value = opp_id ab100_sam"
    by (simp add: ab100_sam_def ab100_sam_value_def post_init_def generate_id_def)
  have run: "deduplicate [ab100_sam, ab100_sam_value] = [ab100_sam]"
    by (simp add: deduplicate_def same)
  have perm: "mset [ab100_sam_value, ab100_sam] = mset [ab100_sam, ab100_sam_value]"
    by simp
  show ?thesis
    using deduplicate_first_wins [of "[ab100_sam, ab100_sam_value]" "[ab100_sam_value, ab100_sam]"]
      run perm same
    by simp
qed

text \<open>
  C2 as stated fails: two SAM.gov records of AB-100, one with the due date and one with
  the value, are one identity; the result is whichever comes first, with the other's
  field lost, so the two orders give different field values.
\<close>

theorem deduplicate_order_counterexample:
  "opp_id ab100_sam_value = opp_id ab100_sam \<and>
   mset [ab100_sam_value, ab100_sam] = mset [ab100_sam, ab100_sam_value] \<and>
   map estimated_value (deduplicate [ab100_sam, ab100_sam_value]) = [None] \<and>
   map due_date (deduplicate [ab100_sam, ab100_sam_value]) = [Some 900] \<and>
   map estimated_value (deduplicate [ab100_sam_value, ab100_sam]) = [Some 120000] \<and>
   map due_date (deduplicate [ab100_sam_value, ab100_sam]) = [None]"
  by (simp add: deduplicate_def ab100_sam_def ab100_sam_value_def post_init_def generate_id_def)

subsection \<open>Collection\<close>







subsection \<open>The pipeline\<close>

text \<open>
  C4, as the code has it. Processing an opportunity stores a record built from the
  opportunity alone, under its identity, in the pipeline and in the table: no second
  record for the identity, the other identities untouched, score and metadata those of
  the opportunity. The stage of the stored record is \<open>RFQ_GENERATED\<close> and its time
  stamps are new, whatever record the identity had before.
\<close>

theorem process_opportunity_replaces:
  "(let self' = process_opportunity now opp self
    in (\<exists>record.
          pipeline self' (opp_id opp) = Some record \<and>
          map_option row_data (opportunities_table self' (opp_id opp)) = Some record \<and>
          map_option row_stage (opportunities_table self' (opp_id opp)) = Some ''rfq_generated'' \<and>
          stage record = RFQ_GENERATED \<and>
          r_match_score record = match_score opp \<and>
          r_win_probability record = win_probability opp \<and>
          r_title record = title opp \<and>
          r_due_date record = due_date opp \<and>
          r_estimated_value record = estimated_value opp \<and>
          r_id record = opp_id opp \<and>
          r_solicitation_number record = solicitation_number opp \<and>
          r_source_portal record = source_portal opp \<and>
          r_agency record = agency opp \<and>
          r_naics_codes record = naics_codes opp \<and>
          r_description record = description opp \<and>
          r_posted_date record = posted_date opp \<and>
          r_set_aside record = set_aside opp \<and>
          r_location record = location opp \<and>
          discovered_at record = now \<and>
          qualified_at record = Some now \<and>
          submitted_at record = None \<and>
          award_date record = None \<and>
          manual_interventions record = []) \<and>
       pipeline self' (opp_id opp) = pipeline (process_opportunity now opp other) (opp_id opp) \<and>
       dom (pipeline self') = insert (opp_id opp) (dom (pipeline self)) \<and>
       dom (opportunities_table self') = insert (opp_id opp) (dom (opportunities_table self)) \<and>
       (\<forall>k. k \<noteq> opp_id opp \<longrightarrow>
          pipeline self' k = pipeline self k \<and>
          opportunities_table self' k = opportunities_table self k) \<and>
       config self' = config self)"
  by (simp add: process_opportunity_def save_opportunity_record_def Let_def)

theorem process_opportunity_replaces_witness:
  "dom (pipeline orch_won) = {opp_id ab100_sam} \<and>
   dom (pipeline (process_opportunity 20000 (ab100_sam\<lparr>match_score := 80\<rparr>) orch_won)) = {opp_id ab100_sam} \<and>
   map_option r_match_score
     (pipeline (process_opportunity 20000 (ab100_sam\<lparr>match_score := 80\<rparr>) orch_won) (opp_id ab100_sam)) = Some 80 \<and>
   pipeline (process_opportunity 20000 (ab100_sam\<lparr>match_score := 80\<rparr>) orch_won) (opp_id ab100_ca) =
     pipeline orch_won (opp_id ab100_ca)"
proof -
  have d: "dom (pipeline orch_won) = {opp_id ab100_sam}"
    by (auto simp: orch_won_def orch0_def process_opportunity_def save_opportunity_record_def Let_def
        split: if_splits)
  have ne: "opp_id ab100_ca \<noteq> opp_id (ab100_sam\<lparr>match_score := 80\<rparr>)"
    by (simp add: opp_id_ab100_sam opp_id_ab100_ca)
  show ?thesis
    using process_opportunity_replaces [of 20000 "ab100_sam\<lparr>match_score := 80\<rparr>" orch_won orch0] d ne
    by (auto simp: Let_def)
qed

text \<open>
  C4 as stated fails: the record of AB-100 is at \<open>WON\<close>, submitted at 5000; processing
  the opportunity again puts it at \<open>RFQ_GENERATED\<close>, an earlier stage, and the
  submission time is gone.
\<close>

theorem process_opportunity_stage_counterexample:
  "map_option stage (pipeline orch_won (opp_id ab100_sam)) = Some WON \<and>
   map_option stage (pipeline (process_opportunity 20000 ab100_sam orch_won) (opp_id ab100_sam))
     = Some RFQ_GENERATED \<and>
   stage_index RFQ_GENERATED < stage_index WON \<and>
   map_option submitted_at (pipeline orch_won (opp_id ab100_sam)) = Some (Some 5000) \<and>
   map_option submitted_at (pipeline (process_opportunity 20000 ab100_sam orch_won) (opp_id ab100_sam))
     = Some None"
  by (simp add: orch_won_def orch0_def process_opportunity_def save_opportunity_record_def Let_def)

lemma py_slice_to_subset: "set (py_slice_to limit xs) \<subseteq> set xs"
  by (auto simp: py_slice_to_def dest: in_set_takeD)

lemma py_slice_to_all: "int (length xs) \<le> limit \<Longrightarrow> py_slice_to limit xs = xs"
  by (simp add: py_slice_to_def)

lemma py_slice_to_take:
  "py_slice_to limit xs =
     take (if 0 \<le> limit then nat limit else length xs - nat (- limit)) xs"
  by (simp add: py_slice_to_def)

lemma sorted_wrt_take_drop:
  assumes "sorted_wrt P xs"
  shows "\<forall>y \<in> set (take k xs). \<forall>x \<in> set (drop k xs). P y x"
proof -
  from assms have "sorted_wrt P (take k xs @ drop k xs)"
    by simp
  then show ?thesis
    unfolding sorted_wrt_append by blast
qed

lemma mset_take_drop: "mset xs - mset (take k xs) = mset (drop k xs)"
proof -
  have "mset xs = mset (take k xs) + mset (drop k xs)"
    by (metis append_take_drop_id mset_append)
  then show ?thesis by simp
qed

lemma mset_take_subset: "mset (take k xs) \<subseteq># mset xs"
proof -
  have "mset xs = mset (take k xs) + mset (drop k xs)"
    by (metis append_take_drop_id mset_append)
  then show ?thesis by (metis mset_subset_eq_add_left)
qed

text \<open>
  C5, as the code has it. The default threshold is 50 and the qualified opportunities
  are exactly those whose score is at least the threshold, in their order. The query
  ranks the stored opportunities that reach its threshold by descending score, ties in
  stored order, and returns the first \<open>limit\<close> of that ranking: only opportunities
  that reach the threshold, none of them outscored by one it leaves out, and all of
  them when no more than \<open>limit\<close> reach the threshold. An opportunity below 50 is
  not qualified and not returned at threshold 50, and is returned at a threshold it
  reaches when the limit allows.
\<close>

theorem qualification_threshold:
  "min_match_score default_config = 50 \<and>
   qualify_opportunities self opportunities =
     filter (\<lambda>x. min_match_score (config self) \<le> match_score x) opportunities \<and>
   (opp \<in> set (qualify_opportunities self opportunities) \<longleftrightarrow>
      opp \<in> set opportunities \<and> match_score opp \<ge> min_match_score (config self)) \<and>
   (opp \<in> set (get_top_opportunities opportunities limit min_score) \<longrightarrow>
      opp \<in> set opportunities \<and> match_score opp \<ge> min_score) \<and>
   (opp \<in> set opportunities \<and> match_score opp \<ge> min_score \<and>
    int (length (filter (\<lambda>x. match_score x \<ge> min_score) opportunities)) \<le> limit \<longrightarrow>
      opp \<in> set (get_top_opportunities opportunities limit min_score)) \<and>
   (let filtered = filter (\<lambda>x. match_score x \<ge> min_score) opportunities;
        returned = get_top_opportunities opportunities limit min_score
    in length returned =
         (if 0 \<le> limit then min (nat limit) (length filtered)
          else length filtered - nat (- limit)) \<and>
       (\<exists>rest.
          sorted_wrt (\<lambda>a b. match_score a \<ge> match_score b) (returned @ rest) \<and>
          (\<forall>s. filter (\<lambda>x. match_score x = s) (returned @ rest) =
                filter (\<lambda>x. match_score x = s) filtered)) \<and>
       mset returned \<subseteq># mset filtered \<and>
       (\<forall>y \<in> set returned. \<forall>x \<in># mset filtered - mset returned.
          match_score x \<le> match_score y))"
proof -
  let ?filtered = "filter (\<lambda>x. match_score x \<ge> min_score) opportunities"
  let ?ranked = "sort_key (\<lambda>x. - match_score x) ?filtered"
  let ?k = "if 0 \<le> limit then nat limit else length ?ranked - nat (- limit)"
  let ?returned = "get_top_opportunities opportunities limit min_score"
  have top: "?returned = py_slice_to limit ?ranked"
    by (simp add: get_top_opportunities_def)
  have take: "?returned = take ?k ?ranked"
    unfolding top by (rule py_slice_to_take)
  have sound: "opp \<in> set opportunities \<and> match_score opp \<ge> min_score"
    if "opp \<in> set ?returned"
  proof -
    from that py_slice_to_subset [of limit ?ranked] have "opp \<in> set ?ranked"
      unfolding top by blast
    then show ?thesis by simp
  qed
  have complete: "opp \<in> set ?returned"
    if "opp \<in> set opportunities" and "match_score opp \<ge> min_score"
      and "int (length ?filtered) \<le> limit"
  proof -
    from that(3) have "py_slice_to limit ?ranked = ?ranked"
      by (intro py_slice_to_all) simp
    with that(1,2) show ?thesis
      unfolding top by simp
  qed
  have "sorted (map (\<lambda>x. - match_score x) ?ranked)"
    by (rule sorted_sort_key)
  then have desc: "sorted_wrt (\<lambda>a b. match_score a \<ge> match_score b) ?ranked"
    by (simp add: sorted_map)
  have stable: "filter (\<lambda>x. match_score x = s) ?ranked = filter (\<lambda>x. match_score x = s) ?filtered" for s
    using sort_key_stable [of "\<lambda>x. - match_score x" "- s" ?filtered] by simp
  have len: "length ?returned =
      (if 0 \<le> limit then min (nat limit) (length ?filtered) else length ?filtered - nat (- limit))"
    unfolding take by (simp add: min.commute)
  have whole: "?returned @ drop ?k ?ranked = ?ranked"
    unfolding take by simp
  have ranking: "\<exists>rest.
      sorted_wrt (\<lambda>a b. match_score a \<ge> match_score b) (?returned @ rest) \<and>
      (\<forall>s. filter (\<lambda>x. match_score x = s) (?returned @ rest) =
            filter (\<lambda>x. match_score x = s) ?filtered)"
  proof (intro exI [of _ "drop ?k ?ranked"] conjI allI)
    show "sorted_wrt (\<lambda>a b. match_score a \<ge> match_score b) (?returned @ drop ?k ?ranked)"
      unfolding whole by (rule desc)
    show "filter (\<lambda>x. match_score x = s) (?returned @ drop ?k ?ranked) =
          filter (\<lambda>x. match_score x = s) ?filtered" for s
      unfolding whole by (rule stable)
  qed
  have mset_ranked: "mset ?ranked = mset ?filtered"
    by simp
  have sub: "mset ?returned \<subseteq># mset ?filtered"
    unfolding take using mset_take_subset [of ?k ?ranked] by (simp only: mset_ranked)
  have rest: "mset ?filtered - mset ?returned = mset (drop ?k ?ranked)"
    unfolding take using mset_take_drop [of ?ranked ?k] by (simp only: mset_ranked)
  have best: "\<forall>y \<in> set ?returned. \<forall>x \<in># mset ?filtered - mset ?returned.
      match_score x \<le> match_score y"
    unfolding rest set_mset_mset
    unfolding take using sorted_wrt_take_drop [OF desc, of ?k] by blast
  have query: "(let filtered = ?filtered; returned = ?returned
    in length returned =
         (if 0 \<le> limit then min (nat limit) (length filtered)
          else length filtered - nat (- limit)) \<and>
       (\<exists>rest.
          sorted_wrt (\<lambda>a b. match_score a \<ge> match_score b) (returned @ rest) \<and>
          (\<forall>s. filter (\<lambda>x. match_score x = s) (returned @ rest) =
                filter (\<lambda>x. match_score x = s) filtered)) \<and>
       mset returned \<subseteq># mset filtered \<and>
       (\<forall>y \<in> set returned. \<forall>x \<in># mset filtered - mset returned.
          match_score x \<le> match_score y))"
    unfolding Let_def using len ranking sub best by (intro conjI)
  have qualify: "qualify_opportunities self opportunities =
      filter (\<lambda>x. min_match_score (config self) \<le> match_score x) opportunities"
    by (simp add: qualify_opportunities_def)
  have member: "opp \<in> set (qualify_opportunities self opportunities) \<longleftrightarrow>
      opp \<in> set opportunities \<and> match_score opp \<ge> min_match_score (config self)"
    unfolding qualify by simp
  have default: "min_match_score default_config = 50"
    by (simp add: default_config_def)
  from default qualify member sound complete query show ?thesis
    by blast
qed

theorem qualification_threshold_witness:
  "ab100_ca\<lparr>match_score := 50\<rparr> \<in> set (qualify_opportunities orch0
      [ab100_sam\<lparr>match_score := 60\<rparr>, ab100_ca\<lparr>match_score := 50\<rparr>, ab100_sam_value\<lparr>match_score := 49\<rparr>]) \<and>
   ab100_ca\<lparr>match_score := 50\<rparr> \<in> set (get_top_opportunities
      [ab100_sam\<lparr>match_score := 60\<rparr>, ab100_ca\<lparr>match_score := 50\<rparr>, ab100_sam_value\<lparr>match_score := 49\<rparr>] 10 50) \<and>
   ab100_sam_value\<lparr>match_score := 49\<rparr> \<notin> set (qualify_opportunities orch0
      [ab100_sam\<lparr>match_score := 60\<rparr>, ab100_ca\<lparr>match_score := 50\<rparr>, ab100_sam_value\<lparr>match_score := 49\<rparr>]) \<and>
   ab100_sam_value\<lparr>match_score := 49\<rparr> \<notin> set (get_top_opportunities
      [ab100_sam\<lparr>match_score := 60\<rparr>, ab100_ca\<lparr>match_score := 50\<rparr>, ab100_sam_value\<lparr>match_score := 49\<rparr>] 10 50) \<and>
   ab100_sam_value\<lparr>match_score := 49\<rparr> \<in> set (get_top_opportunities
      [ab100_sam\<lparr>match_score := 60\<rparr>, ab100_ca\<lparr>match_score := 50\<rparr>, ab100_sam_value\<lparr>match_score := 49\<rparr>] 10 49) \<and>
   map match_score (get_top_opportunities
      [ab100_ca\<lparr>match_score := 50\<rparr>, ab100_sam\<lparr>match_score := 60\<rparr>, ab100_sam_value\<lparr>match_score := 90\<rparr>] 2 50)
     = [90, 60]"
  using
    qualification_threshold [of orch0
      "[ab100_sam\<lparr>match_score := 60\<rparr>, ab100_ca\<lparr>match_score := 50\<rparr>, ab100_sam_value\<lparr>match_score := 49\<rparr>]"
      "ab100_ca\<lparr>match_score := 50\<rparr>" 10 50]
    qualification_threshold [of orch0
      "[ab100_sam\<lparr>match_score := 60\<rparr>, ab100_ca\<lparr>match_score := 50\<rparr>, ab100_sam_value\<lparr>match_score := 49\<rparr>]"
      "ab100_sam_value\<lparr>match_score := 49\<rparr>" 10 50]
    qualification_threshold [of orch0
      "[ab100_sam\<lparr>match_score := 60\<rparr>, ab100_ca\<lparr>match_score := 50\<rparr>, ab100_sam_value\<lparr>match_score := 49\<rparr>]"
      "ab100_sam_value\<lparr>match_score := 49\<rparr>" 10 49]
  by (simp add: orch0_def default_config_def get_top_opportunities_def py_slice_to_def numeral_2_eq_2)

text \<open>
  C5 as stated fails for the query: with ten stored opportunities at 60 and one at
  exactly 50, all eleven are qualified, and the query with its defaults (limit 10,
  threshold 50) returns the ten and not the one at 50.
\<close>

theorem get_top_limit_counterexample:
  "map match_score (replicate 10 (ab100_sam\<lparr>match_score := 60\<rparr>) @ [ab100_ca\<lparr>match_score := 50\<rparr>])
     = [60, 60, 60, 60, 60, 60, 60, 60, 60, 60, 50] \<and>
   map match_score (qualify_opportunities orch0
       (replicate 10 (ab100_sam\<lparr>match_score := 60\<rparr>) @ [ab100_ca\<lparr>match_score := 50\<rparr>]))
     = [60, 60, 60, 60, 60, 60, 60, 60, 60, 60, 50] \<and>
   map match_score (get_top_opportunities
       (replicate 10 (ab100_sam\<lparr>match_score := 60\<rparr>) @ [ab100_ca\<lparr>match_score := 50\<rparr>]) 10 50)
     = [60, 60, 60, 60, 60, 60, 60, 60, 60, 60]"
  by (simp add: get_top_opportunities_def py_slice_to_def qualify_opportunities_def orch0_def
      default_config_def numeral_eq_Suc)

subsection \<open>Scoring\<close>





text \<open>
  C7. For a target range \<open>[lo, hi]\<close> with \<open>0 < lo \<le> hi\<close>, the value-fit factor is
  1.0 inside the range, \<open>max 0.3 (value / lo)\<close> below it, \<open>max 0.2 (hi / value)\<close>
  above it, and 0.5 when the value is unknown; no branch raises.
\<close>

theorem score_contract_value_spec:
  assumes "sweet_spot_value prof = (lo, hi)" and "0 < lo" and "lo \<le> hi"
  shows "score_contract_value prof None = Inr 0.5 \<and>
         (lo \<le> v \<and> v \<le> hi \<longrightarrow> score_contract_value prof (Some v) = Inr 1.0) \<and>
         (v < lo \<longrightarrow> score_contract_value prof (Some v) = Inr (max 0.3 (v / lo))) \<and>
         (hi < v \<longrightarrow> score_contract_value prof (Some v) = Inr (max 0.2 (hi / v)))"
  using assms by (auto simp: score_contract_value_def py_truediv_def)

theorem score_contract_value_spec_witness:
  "score_contract_value company_profile None = Inr 0.5 \<and>
   score_contract_value company_profile (Some 120000) = Inr 1 \<and>
   score_contract_value company_profile (Some 25000) = Inr 0.5 \<and>
   score_contract_value company_profile (Some 1000) = Inr 0.3 \<and>
   score_contract_value company_profile (Some 1000000) = Inr 0.5 \<and>
   score_contract_value company_profile (Some 5000000) = Inr 0.2"
proof -
  have range: "sweet_spot_value company_profile = (50000, 500000)"
    by (simp add: company_profile_def)
  show ?thesis
    using score_contract_value_spec [OF range, of 120000]
      score_contract_value_spec [OF range, of 25000]
      score_contract_value_spec [OF range, of 1000]
      score_contract_value_spec [OF range, of 1000000]
      score_contract_value_spec [OF range, of 5000000]
    by simp
qed

subsection \<open>Scheduling\<close>

text \<open>
  C8, as the code has it. The effective interval is half the base interval when the
  recorded yield is above 5, twice it when the yield is below 1, and the base interval
  otherwise. The California scraper records, with the time, the number of opportunities
  it returns: 0 for a fetch that fails inside its \<^verbatim>\<open>try\<close> (a page time-out, say). After
  two fetches in a row that returned no opportunities, the effective interval of a portal
  whose base interval is not negative is twice the base interval, so the portal is not
  due again before its base interval has passed. A fetch whose exception leaves the
  scraper records nothing: the scheduling state stays as it was.
\<close>

theorem recorded_zero_yield_doubles_interval:
  assumes "0 \<le> scrape_frequency_hours cfg"
    and "california_scrape t1 outcome1 cfg = (Inr [], cfg1)"
    and "california_scrape t2 outcome2 cfg1 = (Inr [], cfg2)"
  shows "california_scrape t outcome c =
           (case outcome of
              Raises_outside_try e \<Rightarrow> (Inl e, c)
            | Raises_in_try e \<Rightarrow>
                (Inr [], c\<lparr>last_scrape := Some t, avg_opportunities_per_scrape := 0\<rparr>)
            | Extracted found \<Rightarrow>
                (Inr found,
                 c\<lparr>last_scrape := Some t, avg_opportunities_per_scrape := real (length found)\<rparr>)) \<and>
         portal_scraper_scrape c = (Inl NotImplementedError, c) \<and>
         last_scrape cfg2 = Some t2 \<and>
         avg_opportunities_per_scrape cfg2 = 0 \<and>
         scrape_frequency_hours cfg2 = scrape_frequency_hours cfg \<and>
         frequency cfg2 = 2 * real_of_int (scrape_frequency_hours cfg) \<and>
         real_of_int (scrape_frequency_hours cfg) \<le> frequency cfg2 \<and>
         should_scrape now cfg2 = (frequency cfg2 \<le> (now - t2) / 3600) \<and>
         ((now - t2) / 3600 < real_of_int (scrape_frequency_hours cfg) \<longrightarrow> \<not> should_scrape now cfg2) \<and>
         frequency c =
           (if avg_opportunities_per_scrape c > 5 then real_of_int (scrape_frequency_hours c) / 2
            else if avg_opportunities_per_scrape c < 1 then real_of_int (scrape_frequency_hours c) * 2
            else real_of_int (scrape_frequency_hours c)) \<and>
         should_scrape now c =
           (case last_scrape c of None \<Rightarrow> True | Some t0 \<Rightarrow> frequency c \<le> (now - t0) / 3600)"
proof -
  have scrape: "california_scrape t outcome c =
      (case outcome of
         Raises_outside_try e \<Rightarrow> (Inl e, c)
       | Raises_in_try e \<Rightarrow>
           (Inr [], c\<lparr>last_scrape := Some t, avg_opportunities_per_scrape := 0\<rparr>)
       | Extracted found \<Rightarrow>
           (Inr found,
            c\<lparr>last_scrape := Some t, avg_opportunities_per_scrape := real (length found)\<rparr>))"
    by (cases outcome) (simp_all add: california_scrape_def)
  have generic: "portal_scraper_scrape c = (Inl NotImplementedError, c)"
    by (simp add: portal_scraper_scrape_def)
  from assms(2) have cfg1: "scrape_frequency_hours cfg1 = scrape_frequency_hours cfg"
    by (auto simp: california_scrape_def Let_def split: page_outcome.splits)
  from assms(3) have cfg2: "cfg2 = cfg1\<lparr>last_scrape := Some t2, avg_opportunities_per_scrape := 0\<rparr>"
    by (auto simp: california_scrape_def Let_def split: page_outcome.splits)
  have formula: "frequency c =
      (if avg_opportunities_per_scrape c > 5 then real_of_int (scrape_frequency_hours c) / 2
       else if avg_opportunities_per_scrape c < 1 then real_of_int (scrape_frequency_hours c) * 2
       else real_of_int (scrape_frequency_hours c))"
    by (simp add: frequency_def)
  have due_when: "should_scrape now c =
      (case last_scrape c of None \<Rightarrow> True | Some t0 \<Rightarrow> frequency c \<le> (now - t0) / 3600)"
    by (simp add: should_scrape_def Let_def split: option.splits)
  have doubled: "frequency cfg2 = 2 * real_of_int (scrape_frequency_hours cfg)"
    by (simp add: cfg2 cfg1 frequency_def)
  have due: "should_scrape now cfg2 = (frequency cfg2 \<le> (now - t2) / 3600)"
    by (simp add: cfg2 should_scrape_def frequency_def)
  from assms(1) have longer: "real_of_int (scrape_frequency_hours cfg) \<le> frequency cfg2"
    unfolding doubled by simp
  have state: "last_scrape cfg2 = Some t2" "avg_opportunities_per_scrape cfg2 = 0"
      "scrape_frequency_hours cfg2 = scrape_frequency_hours cfg"
    by (simp_all add: cfg2 cfg1)
  from due longer
  have early: "(now - t2) / 3600 < real_of_int (scrape_frequency_hours cfg) \<longrightarrow> \<not> should_scrape now cfg2"
    by simp
  from scrape generic state doubled longer due early formula due_when show ?thesis
    by (intro conjI)
qed

theorem recorded_zero_yield_doubles_interval_witness:
  "should_scrape 0 california_eprocure \<and>
   fst (california_scrape 0 (Raises_in_try TimeoutError) california_eprocure) = Inr [] \<and>
   \<not> should_scrape (3600 + 12 * 3600)
       (snd (california_scrape 3600 (Raises_in_try TimeoutError)
          (snd (california_scrape 0 (Raises_in_try TimeoutError) california_eprocure)))) \<and>
   frequency (snd (california_scrape 3600 (Raises_in_try TimeoutError)
          (snd (california_scrape 0 (Raises_in_try TimeoutError) california_eprocure)))) = 24"
proof -
  have base: "0 \<le> scrape_frequency_hours california_eprocure"
    by (simp add: california_eprocure_def)
  obtain c1 where
    s1: "california_scrape 0 (Raises_in_try TimeoutError) california_eprocure = (Inr [], c1)"
    by (simp add: california_scrape_def)
  obtain c2 where
    s2: "california_scrape 3600 (Raises_in_try TimeoutError) c1 = (Inr [], c2)"
    by (simp add: california_scrape_def)
  show ?thesis
    using recorded_zero_yield_doubles_interval [OF base s1 s2, where now = "3600 + 12 * 3600"] s1 s2
    by (simp add: california_eprocure_def should_scrape_def)
qed

text \<open>
  C8 as stated fails for a fetch whose failure leaves the scraper. California eProcure
  (base interval 12 hours) found six opportunities at time 0; then the launch of its
  browser timed out twice. Its effective interval is still 6 hours, and it is due 6
  hours after time 0. Michigan SIGMA has no scraper of its own: each fetch raises, its
  state is as it was before, and it is due at once.
\<close>

theorem failed_fetch_interval_counterexample:
  "fst (california_scrape 3600 (Raises_outside_try TimeoutError) california_after_six)
     = Inl TimeoutError \<and>
   fst (california_scrape 7200 (Raises_outside_try TimeoutError)
          (snd (california_scrape 3600 (Raises_outside_try TimeoutError) california_after_six)))
     = Inl TimeoutError \<and>
   scrape_frequency_hours california_after_launch_timeouts = 12 \<and>
   frequency california_after_launch_timeouts = 6 \<and>
   should_scrape (6 * 3600) california_after_launch_timeouts \<and>
   fst (portal_scraper_scrape michigan_sigma) = Inl NotImplementedError \<and>
   scrape_frequency_hours michigan_after_two_scrapes = 12 \<and>
   should_scrape 1 michigan_after_two_scrapes"
  by (simp add: california_after_launch_timeouts_def california_after_six_def
      michigan_after_two_scrapes_def california_scrape_def portal_scraper_scrape_def
      california_eprocure_def michigan_sigma_def frequency_def should_scrape_def)

subsection \<open>Ranking\<close>

text \<open>
  C9, as the code has it. The ranking holds the scored opportunities in descending
  order of score, and opportunities of equal score stay in the order of the input list:
  the sort is stable and looks at the score only.
\<close>

theorem score_opportunities_order:
  "(let scored = map (\<lambda>opp. opp\<lparr>match_score := score_opportunity opp\<rparr>) opportunities;
        ranked = score_opportunities score_opportunity opportunities
    in sorted_wrt (\<lambda>a b. match_score a \<ge> match_score b) ranked \<and>
       mset ranked = mset scored \<and>
       (\<forall>s. filter (\<lambda>x. match_score x = s) ranked = filter (\<lambda>x. match_score x = s) scored))"
proof -
  let ?scored = "map (\<lambda>opp. opp\<lparr>match_score := score_opportunity opp\<rparr>) opportunities"
  let ?ranked = "sort_key (\<lambda>x. - match_score x) ?scored"
  have "sorted (map (\<lambda>x. - match_score x) ?ranked)"
    by (rule sorted_sort_key)
  then have desc: "sorted_wrt (\<lambda>a b. match_score a \<ge> match_score b) ?ranked"
    by (simp add: sorted_map)
  have stable: "filter (\<lambda>x. match_score x = s) ?ranked = filter (\<lambda>x. match_score x = s) ?scored" for s
    using sort_key_stable [of "\<lambda>x. - match_score x" "- s" ?scored] by simp
  show ?thesis
    unfolding score_opportunities_def Let_def
    using desc stable by simp
qed

text \<open>
  C9 as stated fails on the tie-break: of two opportunities that both score 75, the one
  posted at 300 comes before the one posted at 100 when it comes first in the input.
\<close>

theorem score_opportunities_tie_counterexample:
  "map posted_date (score_opportunities (\<lambda>opp. 75) [ab100_ca\<lparr>posted_date := 300\<rparr>, ab100_sam\<lparr>posted_date := 100\<rparr>])
     = [300, 100] \<and>
   map match_score (score_opportunities (\<lambda>opp. 75) [ab100_ca\<lparr>posted_date := 300\<rparr>, ab100_sam\<lparr>posted_date := 100\<rparr>])
     = [75, 75]"
  by (simp add: score_opportunities_def)

subsection \<open>The learning ledger\<close>

text \<open>
  C10. Recording a pricing observation never divides by zero: it always succeeds and
  appends one row, whose error percentage is 0 when the actual price is not positive
  and \<open>|estimated - actual| / actual * 100\<close> when it is.
\<close>

theorem record_pricing_accuracy_total:
  "record_pricing_accuracy descr estimated actual src now table =
     Inr (table @
       [\<lparr> line_item_description = descr,
          estimated_price = estimated,
          actual_price = actual,
          error_percentage = (if actual > 0 then \<bar>estimated - actual\<bar> / actual * 100 else 0),
          source = src,
          created_at = now \<rparr>])"
  by (simp add: record_pricing_accuracy_def py_truediv_def)

end
